theory Spec2Isabelle
  imports Main "HOL-Library.Word"
begin

section \<open>The CLibVLC log shim (Sources/CLibVLC/shim.c)\<close>

text \<open>
  The shim adapts libVLC's variadic log handler to a callback that takes a formatted
  message. It has three functions: the trampoline \<open>swiftvlc_log_bridge\<close>, and the
  pair \<open>swiftvlc_log_set\<close> / \<open>swiftvlc_log_unset\<close>. Everything else it touches
  (the allocator, \<open>vsnprintf\<close>, libVLC's log registry and the host's callback) lies
  outside the file; the model makes each of them explicit.
\<close>

subsection \<open>Pointers, the context struct and the log record\<close>

text \<open>
  A pointer is an address; address \<open>0\<close> is the null pointer, for data pointers
  and for function pointers alike.
\<close>

type_synonym ptr = nat

abbreviation (input) NULL :: ptr where
  "NULL \<equiv> 0"

type_synonym c_int = "32 word"

type_synonym c_unsigned = "32 word"

text \<open>The type \<open>swiftvlc_log_cb\<close>: a pointer to a host function.\<close>

type_synonym swiftvlc_log_cb = ptr

text \<open>\<open>struct swiftvlc_log_context { swiftvlc_log_cb callback; void *data; }\<close>\<close>

record swiftvlc_log_context =
  callback :: swiftvlc_log_cb
  data :: ptr

text \<open>
  Modelled from the spec: the opaque log record \<open>libvlc_log_t\<close> of \<open>vlc/vlc.h\<close>,
  which "describes one log event's source context (module, header, line)". A C string
  that may be absent is a \<open>string option\<close>, \<open>None\<close> being the null pointer.
\<close>

record libvlc_log_t =
  psz_module :: "string option"
  psz_header :: "string option"
  i_line :: c_unsigned

text \<open>
  Modelled from the spec: the accessor \<open>libvlc_log_get_context\<close> of \<open>vlc/vlc.h\<close>,
  which "pulls module name, header, and line number out of an opaque log-record handle".
  The three out-parameters are passed in with the values the caller initialised them to
  and come back overwritten.
\<close>

definition libvlc_log_get_context ::
  "libvlc_log_t \<Rightarrow> string option \<times> string option \<times> c_unsigned
     \<Rightarrow> string option \<times> string option \<times> c_unsigned" where
  "libvlc_log_get_context ctx outs = (psz_module ctx, psz_header ctx, i_line ctx)"

subsection \<open>Character buffers and \<open>vsnprintf\<close>\<close>

text \<open>
  A \<open>char\<close> array is a list of cells; a cell that was never written holds an
  indeterminate value, \<open>None\<close>.
\<close>

type_synonym buffer = "char option list"

definition NUL :: char where
  "NUL = CHR 0x00"

text \<open>
  The C string a \<open>const char *\<close> to the start of a buffer denotes: the bytes before
  the first terminator. Reading an indeterminate cell, or running off the end of the
  array without meeting a terminator, has no defined result.
\<close>

fun c_str :: "buffer \<Rightarrow> string option" where
  "c_str [] = None"
| "c_str (None # bs) = None"
| "c_str (Some c # bs) = (if c = NUL then Some [] else map_option ((#) c) (c_str bs))"

text \<open>
  The standard formatter is a parameter \<open>F\<close> of the model. \<open>F fmt args\<close> is what
  the format string and the argument list come to, one of three outcomes:
  \<^item> \<open>Formatted text\<close>: the complete text they expand to;
  \<^item> \<open>Encoding_error stored\<close>: the formatter met an encoding error, a failure that
    ISO C defines; \<open>stored\<close> is what it had put into the array by then, with a
    terminator among those bytes only if the implementation stored one;
  \<^item> \<open>Not_accepted\<close>: the arguments do not fit the format string (a conversion
    without its argument, a wrong argument type), for which C defines nothing.
  The argument list \<open>va_list\<close> is of any type.
\<close>

datatype format_outcome = Formatted string | Encoding_error string | Not_accepted

text \<open>
  \<open>vsnprintf(buf, n, fmt, args)\<close> as ISO C specifies it. On success with \<open>n > 0\<close>
  it stores the first \<open>n - 1\<close> bytes of the text (all of it when shorter) and then a
  terminator, leaves every later cell alone, and returns the length of the complete
  text. On an encoding error it returns a negative value, having stored at most \<open>n\<close>
  bytes. The model does not clip the write to the array: a size \<open>n\<close> larger than the
  array makes the result longer than the array was, which is how an overrun shows. The
  result is \<open>None\<close> only where C defines no behaviour.
\<close>

definition vsnprintf ::
  "(string \<Rightarrow> 'va \<Rightarrow> format_outcome) \<Rightarrow> buffer \<Rightarrow> nat \<Rightarrow> string \<Rightarrow> 'va
     \<Rightarrow> (buffer \<times> int) option" where
  "vsnprintf F buf n fmt args =
     (case F fmt args of
        Not_accepted \<Rightarrow> None
      | Encoding_error stored \<Rightarrow>
          Some (map Some (take n stored) @ drop (min n (length stored)) buf, - 1)
      | Formatted formatted \<Rightarrow>
          if n = 0 then Some (buf, int (length formatted))
          else
            let k = min (length formatted) (n - 1) in
            Some (map Some (take k formatted) @ [Some NUL] @ drop (k + 1) buf,
                  int (length formatted)))"

subsection \<open>The world outside the shim\<close>

text \<open>
  libVLC stores, per instance, the log handler and its opaque pointer. The handler is a
  function pointer: the shim's trampoline, or some handler the shim does not know.
\<close>

datatype libvlc_log_cb = Swiftvlc_log_bridge | Other_handler nat

text \<open>
  What the shim does to its surroundings, in the order it does it: allocator calls,
  registry calls and calls into the host's callback. A callback call carries the four
  arguments of \<open>swiftvlc_log_cb\<close>; the message argument points to the trampoline's
  buffer, so the event holds the buffer as it is at the call.
\<close>

datatype event =
    Ev_malloc ptr
  | Ev_free ptr
  | Ev_libvlc_log_set ptr libvlc_log_cb ptr
  | Ev_libvlc_log_unset ptr
  | Ev_callback swiftvlc_log_cb ptr c_int "string option" buffer
  | Ev_other_handler nat

text \<open>
  \<open>heap\<close> holds the live context blocks, \<open>log_handler\<close> is libVLC's registry,
  \<open>allocator\<close> is the allocator's choice of the next block given the live ones
  (\<open>NULL\<close> when it has none to give), \<open>uninit\<close> is the indeterminate content of a
  fresh block, and \<open>trace\<close> lists the events so far.
\<close>

record world =
  heap :: "ptr \<rightharpoonup> swiftvlc_log_context"
  log_handler :: "ptr \<rightharpoonup> libvlc_log_cb \<times> ptr"
  allocator :: "(ptr \<rightharpoonup> swiftvlc_log_context) \<Rightarrow> ptr"
  uninit :: swiftvlc_log_context
  trace :: "event list"

text \<open>
  C gives no meaning to an execution that writes or reads through a null or dangling
  pointer, calls through a null function pointer, frees a block that is not live, or
  hands the formatter arguments that do not fit the format string. Such an execution is
  \<open>Inl\<close> of the reason; it is not an error the shim reports, the shim has no error
  results. An encoding error of the formatter is not among them: C defines it.
\<close>

datatype undefined_behaviour =
    Null_dereference
  | Dangling_dereference
  | Null_call
  | Invalid_free
  | Bad_format

type_synonym 'a result = "undefined_behaviour + 'a"

definition log_event :: "event \<Rightarrow> world \<Rightarrow> world" where
  "log_event e w = w\<lparr>trace := trace w @ [e]\<rparr>"

text \<open>\<open>malloc(sizeof(struct swiftvlc_log_context))\<close>\<close>

definition malloc :: "world \<Rightarrow> ptr \<times> world" where
  "malloc w =
     (let p = allocator w (heap w) in
      if p = NULL then (NULL, log_event (Ev_malloc NULL) w)
      else (p, log_event (Ev_malloc p) (w\<lparr>heap := (heap w)(p \<mapsto> uninit w)\<rparr>)))"

text \<open>\<open>free(p)\<close>: nothing happens for a null pointer; the block must be live otherwise.\<close>

definition free :: "ptr \<Rightarrow> world \<Rightarrow> world result" where
  "free p w =
     (if p = NULL then Inr (log_event (Ev_free p) w)
      else case heap w p of
        None \<Rightarrow> Inl Invalid_free
      | Some blk \<Rightarrow> Inr (log_event (Ev_free p) (w\<lparr>heap := (heap w)(p := None)\<rparr>)))"

text \<open>
  Modelled from the spec: \<open>libvlc_log_set\<close> and \<open>libvlc_log_unset\<close> of
  \<open>vlc/vlc.h\<close>. The first "accepts a fixed-signature handler and an opaque
  per-registration state pointer" and "replaces the stored bridge handler/data pointer";
  after the second the "library will no longer invoke the trampoline".
\<close>

definition libvlc_log_set :: "ptr \<Rightarrow> libvlc_log_cb \<Rightarrow> ptr \<Rightarrow> world \<Rightarrow> world" where
  "libvlc_log_set instance cb opaque w =
     log_event (Ev_libvlc_log_set instance cb opaque)
       (w\<lparr>log_handler := (log_handler w)(instance \<mapsto> (cb, opaque))\<rparr>)"

definition libvlc_log_unset :: "ptr \<Rightarrow> world \<Rightarrow> world" where
  "libvlc_log_unset instance w =
     log_event (Ev_libvlc_log_unset instance)
       (w\<lparr>log_handler := (log_handler w)(instance := None)\<rparr>)"

subsection \<open>The shim\<close>

text \<open>
  \<open>swiftvlc_log_bridge(data, level, ctx, fmt, args)\<close>. The parameter \<open>data\<close> of
  the source is \<open>opaque\<close> here, since \<open>data\<close> names the struct's field. The buffer
  \<open>char buf[1024]\<close> is a local, unwritten at first, and \<open>sizeof(buf)\<close> is its length.
  The result of \<open>vsnprintf\<close> is dropped, as are \<open>header\<close> and \<open>line\<close>: the
  callback is called whether the formatter succeeded or met an encoding error, with the
  buffer as \<open>vsnprintf\<close> left it.
\<close>

definition swiftvlc_log_bridge ::
  "(string \<Rightarrow> 'va \<Rightarrow> format_outcome) \<Rightarrow> ptr \<Rightarrow> c_int \<Rightarrow> libvlc_log_t \<Rightarrow> string \<Rightarrow> 'va
     \<Rightarrow> world \<Rightarrow> world result" where
  "swiftvlc_log_bridge F opaque level ctx fmt args w =
     (let context = opaque;
          buf = replicate 1024 None in
      case vsnprintf F buf (length buf) fmt args of
        None \<Rightarrow> Inl Bad_format
      | Some (buf, ignored) \<Rightarrow>
          (case libvlc_log_get_context ctx (None, None, 0) of
             (module, header, line) \<Rightarrow>
               if context = NULL then Inl Null_dereference
               else (case heap w context of
                 None \<Rightarrow> Inl Dangling_dereference
               | Some c \<Rightarrow>
                   if callback c = NULL then Inl Null_call
                   else Inr (log_event
                               (Ev_callback (callback c) (data c) level module buf) w))))"

text \<open>
  \<open>swiftvlc_log_set(instance, callback, data)\<close>; the parameters \<open>callback\<close> and
  \<open>data\<close> of the source are \<open>cb\<close> and \<open>userdata\<close> here. The two assignments go
  through \<open>context\<close> with no test of what \<open>malloc\<close> returned.
\<close>

definition store_callback :: "ptr \<Rightarrow> swiftvlc_log_cb \<Rightarrow> world \<Rightarrow> world result" where
  "store_callback p cb w =
     (if p = NULL then Inl Null_dereference
      else case heap w p of
        None \<Rightarrow> Inl Dangling_dereference
      | Some c \<Rightarrow> Inr (w\<lparr>heap := (heap w)(p \<mapsto> c\<lparr>callback := cb\<rparr>)\<rparr>))"

definition store_data :: "ptr \<Rightarrow> ptr \<Rightarrow> world \<Rightarrow> world result" where
  "store_data p d w =
     (if p = NULL then Inl Null_dereference
      else case heap w p of
        None \<Rightarrow> Inl Dangling_dereference
      | Some c \<Rightarrow> Inr (w\<lparr>heap := (heap w)(p \<mapsto> c\<lparr>data := d\<rparr>)\<rparr>))"

definition swiftvlc_log_set ::
  "ptr \<Rightarrow> swiftvlc_log_cb \<Rightarrow> ptr \<Rightarrow> world \<Rightarrow> (ptr \<times> world) result" where
  "swiftvlc_log_set instance cb userdata w =
     (let (context, w1) = malloc w in
      case store_callback context cb w1 of
        Inl ub \<Rightarrow> Inl ub
      | Inr w2 \<Rightarrow>
          (case store_data context userdata w2 of
             Inl ub \<Rightarrow> Inl ub
           | Inr w3 \<Rightarrow>
               Inr (context, libvlc_log_set instance Swiftvlc_log_bridge context w3)))"

text \<open>\<open>swiftvlc_log_unset(instance, context)\<close>\<close>

definition swiftvlc_log_unset :: "ptr \<Rightarrow> ptr \<Rightarrow> world \<Rightarrow> world result" where
  "swiftvlc_log_unset instance context w = free context (libvlc_log_unset instance w)"

subsection \<open>Log events as libVLC delivers them\<close>

text \<open>
  Modelled from the spec: libVLC's side of a log event, "the underlying library invokes
  the bridge's internal handler with a format string and argument list on each log
  event", with the opaque pointer of the registration. An instance with no handler logs
  nowhere. A handler that is not the shim's is only recorded.
\<close>

definition call_handler ::
  "(string \<Rightarrow> 'va \<Rightarrow> format_outcome)
     \<Rightarrow> libvlc_log_cb \<Rightarrow> ptr \<Rightarrow> c_int \<Rightarrow> libvlc_log_t \<Rightarrow> string \<Rightarrow> 'va
     \<Rightarrow> world \<Rightarrow> world result" where
  "call_handler F h opaque level ctx fmt args w =
     (case h of
        Swiftvlc_log_bridge \<Rightarrow> swiftvlc_log_bridge F opaque level ctx fmt args w
      | Other_handler k \<Rightarrow> Inr (log_event (Ev_other_handler k) w))"

definition libvlc_log ::
  "(string \<Rightarrow> 'va \<Rightarrow> format_outcome)
     \<Rightarrow> ptr \<Rightarrow> c_int \<Rightarrow> libvlc_log_t \<Rightarrow> string \<Rightarrow> 'va \<Rightarrow> world \<Rightarrow> world result" where
  "libvlc_log F instance level ctx fmt args w =
     (case log_handler w instance of
        None \<Rightarrow> Inr w
      | Some (h, opaque) \<Rightarrow> call_handler F h opaque level ctx fmt args w)"

text \<open>A run of log events on one instance, stopping at the first undefined one.\<close>

fun libvlc_log_all ::
  "(string \<Rightarrow> 'va \<Rightarrow> format_outcome)
     \<Rightarrow> ptr \<Rightarrow> (c_int \<times> libvlc_log_t \<times> string \<times> 'va) list \<Rightarrow> world \<Rightarrow> world result" where
  "libvlc_log_all F instance [] w = Inr w"
| "libvlc_log_all F instance ((level, ctx, fmt, args) # evs) w =
     (case libvlc_log F instance level ctx fmt args w of
        Inl ub \<Rightarrow> Inl ub
      | Inr w' \<Rightarrow> libvlc_log_all F instance evs w')"

text \<open>A log event whose format string and arguments C gives a meaning to.\<close>

definition defined_format ::
  "(string \<Rightarrow> 'va \<Rightarrow> format_outcome) \<Rightarrow> c_int \<times> libvlc_log_t \<times> string \<times> 'va \<Rightarrow> bool" where
  "defined_format F ev = (case ev of (level, ctx, fmt, args) \<Rightarrow> F fmt args \<noteq> Not_accepted)"

text \<open>The user-data argument of a callback call; \<open>None\<close> for any other event.\<close>

fun callback_data :: "event \<Rightarrow> ptr option" where
  "callback_data (Ev_callback cb d level m buf) = Some d"
| "callback_data e = None"

subsection \<open>Concrete inputs\<close>

text \<open>
  A world with one live context block at address 1 (callback 7, user data 9), registered
  for instance 5, and an allocator that hands out address 2 next; the same world with an
  allocator that has nothing to give; and two formatters, one that joins the format
  string and a single string argument and meets an encoding error, with the format
  string stored, when the argument is empty, one that always yields 2000 letters.
\<close>

definition example_world :: world where
  "example_world =
     \<lparr>heap = [1 \<mapsto> \<lparr>callback = 7, data = 9\<rparr>],
      log_handler = [5 \<mapsto> (Swiftvlc_log_bridge, 1)],
      allocator = (\<lambda>h. 2),
      uninit = \<lparr>callback = 0, data = 0\<rparr>,
      trace = []\<rparr>"

definition exhausted_world :: world where
  "exhausted_world = example_world\<lparr>allocator := (\<lambda>h. NULL)\<rparr>"

definition join_format :: "string \<Rightarrow> string \<Rightarrow> format_outcome" where
  "join_format fmt arg = (if arg = [] then Encoding_error fmt else Formatted (fmt @ arg))"

definition long_format :: "string \<Rightarrow> unit \<Rightarrow> format_outcome" where
  "long_format fmt arg = Formatted (replicate 2000 (CHR ''a''))"

section \<open>Properties\<close>

subsection \<open>Auxiliary facts\<close>

lemma c_str_terminated:
  "c_str (map Some s @ Some NUL # rest) = Some (takeWhile (\<lambda>x. x \<noteq> NUL) s)"
  by (induction s) simp_all

lemma vsnprintf_fresh:
  assumes "F fmt args = Formatted out" and "0 < n"
  shows "vsnprintf F (replicate n None) n fmt args =
           Some (map Some (take (n - 1) out) @ Some NUL # replicate (n - 1 - length out) None,
                 int (length out))"
  using assms by (simp add: vsnprintf_def Let_def min_def)

lemma vsnprintf_defined:
  assumes "F fmt args \<noteq> Not_accepted"
  shows "\<exists>buf' r. vsnprintf F buf n fmt args = Some (buf', r)"
  using assms by (cases "F fmt args") (simp_all add: vsnprintf_def Let_def)

lemma swiftvlc_log_bridge_call:
  assumes "vsnprintf F (replicate 1024 None) 1024 fmt args = Some (buf, r)"
    and "opaque \<noteq> NULL" and "heap w opaque = Some c" and "callback c \<noteq> NULL"
  shows "swiftvlc_log_bridge F opaque level ctx fmt args w =
           Inr (log_event (Ev_callback (callback c) (data c) level (psz_module ctx) buf) w)"
  using assms by (simp add: swiftvlc_log_bridge_def libvlc_log_get_context_def)

lemma swiftvlc_log_bridge_eq:
  assumes "F fmt args = Formatted out" and "opaque \<noteq> NULL" and "heap w opaque = Some c"
    and "callback c \<noteq> NULL"
  shows "swiftvlc_log_bridge F opaque level ctx fmt args w =
           Inr (log_event (Ev_callback (callback c) (data c) level (psz_module ctx)
                  (map Some (take 1023 out) @ Some NUL # replicate (1023 - length out) None)) w)"
proof -
  have "vsnprintf F (replicate 1024 None) 1024 fmt args =
          Some (map Some (take 1023 out) @ Some NUL # replicate (1023 - length out) None,
                int (length out))"
    using vsnprintf_fresh [of F fmt args out 1024] assms(1) by simp
  from swiftvlc_log_bridge_call [OF this assms(2,3,4)] show ?thesis .
qed

lemma swiftvlc_log_bridge_InrD:
  assumes "swiftvlc_log_bridge F opaque level ctx fmt args w = Inr w'"
  shows "\<exists>c buf r. vsnprintf F (replicate 1024 None) 1024 fmt args = Some (buf, r)
           \<and> opaque \<noteq> NULL \<and> heap w opaque = Some c \<and> callback c \<noteq> NULL"
  using assms
  by (auto simp: swiftvlc_log_bridge_def libvlc_log_get_context_def
      split: option.splits if_splits)

lemma context_assigned:
  "(c::swiftvlc_log_context)\<lparr>callback := cb, data := d\<rparr> = \<lparr>callback = cb, data = d\<rparr>"
  by (cases c) simp

lemma swiftvlc_log_set_eq:
  assumes "allocator w (heap w) \<noteq> NULL"
  shows "swiftvlc_log_set instance cb userdata w =
           Inr (allocator w (heap w),
                w\<lparr>heap := (heap w)(allocator w (heap w) \<mapsto> \<lparr>callback = cb, data = userdata\<rparr>),
                  log_handler :=
                    (log_handler w)(instance \<mapsto> (Swiftvlc_log_bridge, allocator w (heap w))),
                  trace := trace w @
                    [Ev_malloc (allocator w (heap w)),
                     Ev_libvlc_log_set instance Swiftvlc_log_bridge (allocator w (heap w))]\<rparr>)"
  using assms
  by (simp add: swiftvlc_log_set_def malloc_def store_callback_def store_data_def
      libvlc_log_set_def log_event_def Let_def context_assigned)

lemma libvlc_log_all_registered:
  assumes "log_handler w instance = Some (Swiftvlc_log_bridge, p)"
    and "p \<noteq> NULL" and "heap w p = Some c" and "callback c \<noteq> NULL"
    and "list_all (defined_format F) evs"
  shows "\<exists>t. libvlc_log_all F instance evs w = Inr (w\<lparr>trace := trace w @ t\<rparr>)
           \<and> map callback_data t = replicate (length evs) (Some (data c))"
  using assms
proof (induction evs arbitrary: w)
  case Nil
  then show ?case by simp
next
  case (Cons ev evs)
  obtain level ctx fmt args where ev: "ev = (level, ctx, fmt, args)"
    by (cases ev) auto
  from Cons.prems(5) have rest: "list_all (defined_format F) evs"
    by simp
  from Cons.prems(5) have "F fmt args \<noteq> Not_accepted"
    by (simp add: ev defined_format_def)
  with vsnprintf_defined [of F fmt args "replicate 1024 None" 1024] obtain buf r where
    "vsnprintf F (replicate 1024 None) 1024 fmt args = Some (buf, r)"
    by blast
  from swiftvlc_log_bridge_call [OF this Cons.prems(2,3,4)]
  have br: "swiftvlc_log_bridge F p level ctx fmt args w =
              Inr (log_event (Ev_callback (callback c) (data c) level (psz_module ctx) buf) w)" .
  let ?e = "Ev_callback (callback c) (data c) level (psz_module ctx) buf"
  let ?w1 = "w\<lparr>trace := trace w @ [?e]\<rparr>"
  have step: "libvlc_log F instance level ctx fmt args w = Inr ?w1"
    using br Cons.prems(1) by (simp add: libvlc_log_def call_handler_def log_event_def)
  have "log_handler ?w1 instance = Some (Swiftvlc_log_bridge, p)" and "heap ?w1 p = Some c"
    using Cons.prems(1,3) by simp_all
  from Cons.IH [OF this(1) Cons.prems(2) this(2) Cons.prems(4) rest] obtain t where
    t: "libvlc_log_all F instance evs ?w1 = Inr (?w1\<lparr>trace := trace ?w1 @ t\<rparr>)"
      "map callback_data t = replicate (length evs) (Some (data c))"
    by blast
  have "libvlc_log_all F instance (ev # evs) w = Inr (w\<lparr>trace := trace w @ (?e # t)\<rparr>)"
    using step t(1) by (simp add: ev)
  moreover have "map callback_data (?e # t) = replicate (length (ev # evs)) (Some (data c))"
    by (simp add: t(2))
  ultimately show ?case by blast
qed

lemma libvlc_log_all_unregistered:
  "log_handler w instance = None \<Longrightarrow> libvlc_log_all F instance evs w = Inr w"
  by (induction evs) (auto simp: libvlc_log_def)

lemma swiftvlc_log_unset_eq:
  assumes "context = NULL \<or> heap w context \<noteq> None"
  shows "swiftvlc_log_unset instance context w =
           Inr (w\<lparr>heap := (if context = NULL then heap w else (heap w)(context := None)),
                  log_handler := (log_handler w)(instance := None),
                  trace := trace w @ [Ev_libvlc_log_unset instance, Ev_free context]\<rparr>)"
  using assms
  by (auto simp: swiftvlc_log_unset_def free_def libvlc_log_unset_def log_event_def)

subsection \<open>Formatting\<close>

text \<open>
  Claim C1. Whenever the formatter accepts the format string and the arguments and the
  text \<open>out\<close> fits the buffer together with its terminator (fewer than 1024 bytes),
  the trampoline calls the stored callback with a buffer that holds \<open>out\<close>, then the
  terminator. The message the callback reads from it is the one read from the result of
  \<open>vsnprintf\<close> on the same format string and arguments with any capacity \<open>n\<close> that
  holds the text: the bytes of \<open>out\<close> before its first zero byte, so \<open>out\<close> itself
  when it has none.
\<close>

theorem bridge_message_equals_formatter_output:
  assumes "F fmt args = Formatted out" and "length out < 1024"
    and "opaque \<noteq> NULL" and "heap w opaque = Some c" and "callback c \<noteq> NULL"
    and "length out < n"
  shows "swiftvlc_log_bridge F opaque level ctx fmt args w =
           Inr (log_event (Ev_callback (callback c) (data c) level (psz_module ctx)
                  (map Some out @ Some NUL # replicate (1023 - length out) None)) w)
         \<and> c_str (map Some out @ Some NUL # replicate (1023 - length out) None) =
             Some (takeWhile (\<lambda>x. x \<noteq> NUL) out)
         \<and> (\<exists>ref. vsnprintf F (replicate n None) n fmt args = Some (ref, int (length out))
                \<and> c_str ref = c_str (map Some out @ Some NUL # replicate (1023 - length out) None)
                \<and> take (length out) ref = map Some out)"
proof -
  have "take 1023 out = out"
    using assms(2) by simp
  with swiftvlc_log_bridge_eq [of F fmt args out opaque w c level ctx] assms
  have run: "swiftvlc_log_bridge F opaque level ctx fmt args w =
           Inr (log_event (Ev_callback (callback c) (data c) level (psz_module ctx)
                  (map Some out @ Some NUL # replicate (1023 - length out) None)) w)"
    by simp
  have "take (n - 1) out = out"
    using assms(6) by simp
  with vsnprintf_fresh [of F fmt args out n] assms(1,6)
  have ref: "vsnprintf F (replicate n None) n fmt args =
           Some (map Some out @ Some NUL # replicate (n - 1 - length out) None,
                 int (length out))"
    by simp
  show ?thesis
    using run ref by (simp add: c_str_terminated)
qed

theorem bridge_message_equals_formatter_output_witness:
  "swiftvlc_log_bridge join_format 1 3
       \<lparr>psz_module = Some ''core'', psz_header = Some ''hdr'', i_line = 42\<rparr>
       ''hi '' ''there'' example_world =
     Inr (log_event (Ev_callback 7 9 3 (Some ''core'')
            (map Some ''hi there'' @ Some NUL # replicate 1015 None)) example_world)
   \<and> c_str (map Some ''hi there'' @ Some NUL # replicate 1015 None) = Some ''hi there''
   \<and> (\<exists>ref. vsnprintf join_format (replicate 16 None) 16 ''hi '' ''there'' =
                  Some (ref, int (length ''hi there''))
          \<and> c_str ref = c_str (map Some ''hi there'' @ Some NUL # replicate 1015 None)
          \<and> take (length ''hi there'') ref = map Some ''hi there'')"
  using bridge_message_equals_formatter_output
    [of join_format "''hi ''" "''there''" "''hi there''" 1 example_world
        "\<lparr>callback = 7, data = 9\<rparr>" 16 3
        "\<lparr>psz_module = Some ''core'', psz_header = Some ''hdr'', i_line = 42\<rparr>"]
  by (simp add: join_format_def example_world_def NUL_def)

text \<open>
  Claim C2. Whenever the formatted text \<open>out\<close> is longer than 1023 bytes, the buffer
  the callback receives is the first 1023 bytes of \<open>out\<close> followed by the terminator:
  1024 cells, the size of the array, so nothing is written beyond it. The message read
  from it is those 1023 bytes, up to a zero byte among them if there is one.
\<close>

theorem bridge_truncates_long_output:
  assumes "F fmt args = Formatted out" and "1023 < length out"
    and "opaque \<noteq> NULL" and "heap w opaque = Some c" and "callback c \<noteq> NULL"
  shows "swiftvlc_log_bridge F opaque level ctx fmt args w =
           Inr (log_event (Ev_callback (callback c) (data c) level (psz_module ctx)
                  (map Some (take 1023 out) @ [Some NUL])) w)
         \<and> vsnprintf F (replicate 1024 None) (length (replicate 1024 None)) fmt args =
             Some (map Some (take 1023 out) @ [Some NUL], int (length out))
         \<and> length (map Some (take 1023 out) @ [Some NUL]) = 1024
         \<and> c_str (map Some (take 1023 out) @ [Some NUL]) =
             Some (takeWhile (\<lambda>x. x \<noteq> NUL) (take 1023 out))"
proof -
  have "vsnprintf F (replicate 1024 None) (length (replicate 1024 None)) fmt args =
             Some (map Some (take 1023 out) @ [Some NUL], int (length out))"
    using vsnprintf_fresh [of F fmt args out 1024] assms(1,2) by simp
  moreover
  have "swiftvlc_log_bridge F opaque level ctx fmt args w =
           Inr (log_event (Ev_callback (callback c) (data c) level (psz_module ctx)
                  (map Some (take 1023 out) @ [Some NUL])) w)"
    using swiftvlc_log_bridge_eq [of F fmt args out opaque w c level ctx] assms by simp
  moreover have "length (map Some (take 1023 out) @ [Some NUL]) = 1024"
    using assms(2) by simp
  ultimately show ?thesis
    using c_str_terminated [of "take 1023 out" "[]"] by simp
qed

theorem bridge_truncates_long_output_witness:
  "swiftvlc_log_bridge long_format 1 3
       \<lparr>psz_module = None, psz_header = None, i_line = 0\<rparr> ''%s'' () example_world =
     Inr (log_event (Ev_callback 7 9 3 None
            (map Some (replicate 1023 (CHR ''a'')) @ [Some NUL])) example_world)
   \<and> vsnprintf long_format (replicate 1024 None) (length (replicate 1024 None)) ''%s'' () =
       Some (map Some (replicate 1023 (CHR ''a'')) @ [Some NUL], 2000)
   \<and> length (map Some (replicate 1023 (CHR ''a'')) @ [Some NUL]) = 1024
   \<and> c_str (map Some (replicate 1023 (CHR ''a'')) @ [Some NUL]) =
       Some (replicate 1023 (CHR ''a''))"
  using bridge_truncates_long_output
    [of long_format "''%s''" "()" "replicate 2000 (CHR ''a'')" 1 example_world
        "\<lparr>callback = 7, data = 9\<rparr>" 3
        "\<lparr>psz_module = None, psz_header = None, i_line = 0\<rparr>"]
  by (simp add: long_format_def example_world_def NUL_def)

subsection \<open>The trampoline\<close>

text \<open>
  Claim C4. On every log event that C gives a meaning to (the formatter accepts the
  arguments or meets an encoding error, the context block is live, the stored callback
  is not null) the trampoline calls the callback stored in its context block with the
  user data stored there, the level of the event, the module name of the log record
  (\<open>None\<close>, the null pointer, when the record has none) and the buffer as
  \<open>vsnprintf\<close> left it: the formatted text, cut to 1023 bytes, and its terminator when
  formatting succeeded. The record's header and line do not reach the callback: changing
  them changes nothing.
\<close>

theorem bridge_callback_arguments:
  assumes "F fmt args \<noteq> Not_accepted"
    and "opaque \<noteq> NULL" and "heap w opaque = Some c" and "callback c \<noteq> NULL"
  shows "\<exists>buf r. vsnprintf F (replicate 1024 None) 1024 fmt args = Some (buf, r)
           \<and> swiftvlc_log_bridge F opaque level ctx fmt args w =
               Inr (log_event
                      (Ev_callback (callback c) (data c) level (psz_module ctx) buf) w)
           \<and> swiftvlc_log_bridge F opaque level (ctx\<lparr>psz_header := h, i_line := l\<rparr>) fmt args w =
               swiftvlc_log_bridge F opaque level ctx fmt args w
           \<and> (\<forall>out. F fmt args = Formatted out \<longrightarrow>
                 buf = map Some (take 1023 out) @ Some NUL # replicate (1023 - length out) None)"
proof -
  from assms(1) vsnprintf_defined [of F fmt args "replicate 1024 None" 1024]
  obtain buf r where v: "vsnprintf F (replicate 1024 None) 1024 fmt args = Some (buf, r)"
    by blast
  have call: "swiftvlc_log_bridge F opaque level ctx' fmt args w =
      Inr (log_event (Ev_callback (callback c) (data c) level (psz_module ctx') buf) w)"
    for ctx'
    using v assms(2,3,4) by (rule swiftvlc_log_bridge_call)
  have "buf = map Some (take 1023 out) @ Some NUL # replicate (1023 - length out) None"
    if "F fmt args = Formatted out" for out
    using vsnprintf_fresh [of F fmt args out 1024] that v by simp
  with v call [of ctx] call [of "ctx\<lparr>psz_header := h, i_line := l\<rparr>"] show ?thesis
    by simp
qed

theorem bridge_callback_arguments_witness:
  "swiftvlc_log_bridge join_format 1 3
       \<lparr>psz_module = Some ''core'', psz_header = Some ''hdr'', i_line = 42\<rparr>
       ''hi '' ''there'' example_world =
     Inr (log_event (Ev_callback 7 9 3 (Some ''core'')
            (map Some ''hi there'' @ Some NUL # replicate 1015 None)) example_world)
   \<and> swiftvlc_log_bridge join_format 1 3
       \<lparr>psz_module = None, psz_header = Some ''hdr'', i_line = 42\<rparr>
       ''hi '' ''there'' example_world =
     Inr (log_event (Ev_callback 7 9 3 None
            (map Some ''hi there'' @ Some NUL # replicate 1015 None)) example_world)
   \<and> swiftvlc_log_bridge join_format 1 4
       \<lparr>psz_module = Some ''core'', psz_header = None, i_line = 0\<rparr>
       ''oops'' [] example_world =
     Inr (log_event (Ev_callback 7 9 4 (Some ''core'')
            (map Some ''oops'' @ replicate 1020 None)) example_world)"
  using bridge_callback_arguments
    [of join_format "''hi ''" "''there''" 1 example_world
        "\<lparr>callback = 7, data = 9\<rparr>" 3
        "\<lparr>psz_module = Some ''core'', psz_header = Some ''hdr'', i_line = 42\<rparr>"]
    bridge_callback_arguments
    [of join_format "''hi ''" "''there''" 1 example_world
        "\<lparr>callback = 7, data = 9\<rparr>" 3
        "\<lparr>psz_module = None, psz_header = Some ''hdr'', i_line = 42\<rparr>"]
    bridge_callback_arguments
    [of join_format "''oops''" "[]" 1 example_world
        "\<lparr>callback = 7, data = 9\<rparr>" 4
        "\<lparr>psz_module = Some ''core'', psz_header = None, i_line = 0\<rparr>"]
  by (auto simp: join_format_def example_world_def vsnprintf_def NUL_def)

text \<open>
  Claim C8. The trampoline returns exactly when C gives the invocation a meaning, and
  the world it returns is then the one it started in with one event added, the call of
  the stored callback with the buffer \<open>vsnprintf\<close> left: the context block, the rest of
  the heap, the registry and the allocator are as before, and the buffer lives nowhere
  but in the arguments of that call. This holds as well when the formatter met an
  encoding error.
\<close>

theorem bridge_frame:
  "swiftvlc_log_bridge F opaque level ctx fmt args w = Inr w' \<longleftrightarrow>
     (\<exists>c buf r. vsnprintf F (replicate 1024 None) 1024 fmt args = Some (buf, r)
        \<and> opaque \<noteq> NULL \<and> heap w opaque = Some c \<and> callback c \<noteq> NULL
        \<and> w' = w\<lparr>trace := trace w @
                    [Ev_callback (callback c) (data c) level (psz_module ctx) buf]\<rparr>)"
proof
  assume ret: "swiftvlc_log_bridge F opaque level ctx fmt args w = Inr w'"
  from swiftvlc_log_bridge_InrD [OF ret] obtain c buf r where
    h: "vsnprintf F (replicate 1024 None) 1024 fmt args = Some (buf, r)"
      "opaque \<noteq> NULL" "heap w opaque = Some c" "callback c \<noteq> NULL"
    by blast
  from swiftvlc_log_bridge_call [OF h, of level ctx] ret
  have "w' = w\<lparr>trace := trace w @
                    [Ev_callback (callback c) (data c) level (psz_module ctx) buf]\<rparr>"
    by (simp add: log_event_def)
  with h show "\<exists>c buf r. vsnprintf F (replicate 1024 None) 1024 fmt args = Some (buf, r)
        \<and> opaque \<noteq> NULL \<and> heap w opaque = Some c \<and> callback c \<noteq> NULL
        \<and> w' = w\<lparr>trace := trace w @
                    [Ev_callback (callback c) (data c) level (psz_module ctx) buf]\<rparr>"
    by blast
next
  assume "\<exists>c buf r. vsnprintf F (replicate 1024 None) 1024 fmt args = Some (buf, r)
        \<and> opaque \<noteq> NULL \<and> heap w opaque = Some c \<and> callback c \<noteq> NULL
        \<and> w' = w\<lparr>trace := trace w @
                    [Ev_callback (callback c) (data c) level (psz_module ctx) buf]\<rparr>"
  then obtain c buf r where
    h: "vsnprintf F (replicate 1024 None) 1024 fmt args = Some (buf, r)"
      "opaque \<noteq> NULL" "heap w opaque = Some c" "callback c \<noteq> NULL"
    and w': "w' = w\<lparr>trace := trace w @
                    [Ev_callback (callback c) (data c) level (psz_module ctx) buf]\<rparr>"
    by blast
  from swiftvlc_log_bridge_call [OF h, of level ctx] w'
  show "swiftvlc_log_bridge F opaque level ctx fmt args w = Inr w'"
    by (simp add: log_event_def)
qed

theorem bridge_frame_witness:
  "swiftvlc_log_bridge join_format 1 3
       \<lparr>psz_module = Some ''core'', psz_header = None, i_line = 0\<rparr>
       ''hi '' ''there'' example_world =
     Inr (example_world\<lparr>trace := trace example_world @
            [Ev_callback 7 9 3 (Some ''core'')
               (map Some ''hi there'' @ Some NUL # replicate 1015 None)]\<rparr>)
   \<and> swiftvlc_log_bridge join_format 1 4
       \<lparr>psz_module = None, psz_header = None, i_line = 0\<rparr>
       ''oops'' [] example_world =
     Inr (example_world\<lparr>trace := trace example_world @
            [Ev_callback 7 9 4 None (map Some ''oops'' @ replicate 1020 None)]\<rparr>)
   \<and> swiftvlc_log_bridge join_format 3 3
       \<lparr>psz_module = Some ''core'', psz_header = None, i_line = 0\<rparr>
       ''hi '' ''there'' example_world \<noteq> Inr example_world"
  using bridge_frame
    [of join_format 1 3 "\<lparr>psz_module = Some ''core'', psz_header = None, i_line = 0\<rparr>"
        "''hi ''" "''there''" example_world
        "example_world\<lparr>trace := trace example_world @
            [Ev_callback 7 9 3 (Some ''core'')
               (map Some ''hi there'' @ Some NUL # replicate 1015 None)]\<rparr>"]
    bridge_frame
    [of join_format 1 4 "\<lparr>psz_module = None, psz_header = None, i_line = 0\<rparr>"
        "''oops''" "[]" example_world
        "example_world\<lparr>trace := trace example_world @
            [Ev_callback 7 9 4 None (map Some ''oops'' @ replicate 1020 None)]\<rparr>"]
    bridge_frame
    [of join_format 3 3 "\<lparr>psz_module = Some ''core'', psz_header = None, i_line = 0\<rparr>"
        "''hi ''" "''there''" example_world example_world]
  by (simp add: join_format_def example_world_def vsnprintf_def NUL_def)

subsection \<open>Installing and removing the handler\<close>

text \<open>
  Claim C3. For every instance, callback and user data, when the allocator has a block to
  give, \<open>swiftvlc_log_set\<close> returns the address of that block; on return the block
  holds exactly the callback and the user data given, libVLC's registry maps the instance
  to the trampoline with that address as its opaque pointer, and nothing else has
  changed. The calls made are \<open>malloc\<close>, then \<open>libvlc_log_set\<close>.
\<close>

theorem log_set_allocates_registers_returns:
  assumes "allocator w (heap w) \<noteq> NULL"
  shows "swiftvlc_log_set instance cb userdata w =
           Inr (allocator w (heap w),
                w\<lparr>heap := (heap w)(allocator w (heap w) \<mapsto> \<lparr>callback = cb, data = userdata\<rparr>),
                  log_handler :=
                    (log_handler w)(instance \<mapsto> (Swiftvlc_log_bridge, allocator w (heap w))),
                  trace := trace w @
                    [Ev_malloc (allocator w (heap w)),
                     Ev_libvlc_log_set instance Swiftvlc_log_bridge (allocator w (heap w))]\<rparr>)"
  using assms by (rule swiftvlc_log_set_eq)

theorem log_set_allocates_registers_returns_witness:
  "allocator example_world (heap example_world) \<noteq> NULL
   \<and> swiftvlc_log_set 6 8 4 example_world =
       Inr (2, example_world
                 \<lparr>heap := [1 \<mapsto> \<lparr>callback = 7, data = 9\<rparr>, 2 \<mapsto> \<lparr>callback = 8, data = 4\<rparr>],
                   log_handler := [5 \<mapsto> (Swiftvlc_log_bridge, 1), 6 \<mapsto> (Swiftvlc_log_bridge, 2)],
                   trace := [Ev_malloc 2, Ev_libvlc_log_set 6 Swiftvlc_log_bridge 2]\<rparr>)"
  using log_set_allocates_registers_returns [of example_world 6 8 4]
  by (simp add: example_world_def)

text \<open>
  Claim C6. When the allocator has nothing to give, \<open>swiftvlc_log_set\<close> does not fail
  with an allocation error: it assigns through the null pointer that \<open>malloc\<close>
  returned, which is undefined behaviour.
\<close>

theorem log_set_allocation_failure:
  "swiftvlc_log_set 6 8 4 exhausted_world = Inl Null_dereference"
  by (simp add: swiftvlc_log_set_def malloc_def store_callback_def exhausted_world_def
      example_world_def)

text \<open>
  Claim C9. \<open>swiftvlc_log_set\<close> does not look at the callback: for every callback,
  the null function pointer included, when the allocator has a block to give it stores
  the callback as given and returns a non-null handle. On the next log event of that
  instance (with arguments the formatter accepts) the trampoline calls through the stored
  pointer: a call through a null function pointer when the callback is null, the callback
  call otherwise.
\<close>

theorem log_set_stores_callback_unchecked:
  assumes "allocator w (heap w) \<noteq> NULL" and "F fmt args = Formatted out"
  shows "\<exists>handle w1. swiftvlc_log_set instance cb userdata w = Inr (handle, w1)
           \<and> handle \<noteq> NULL
           \<and> heap w1 handle = Some \<lparr>callback = cb, data = userdata\<rparr>
           \<and> log_handler w1 instance = Some (Swiftvlc_log_bridge, handle)
           \<and> libvlc_log F instance level ctx fmt args w1 =
               (if cb = NULL then Inl Null_call
                else Inr (log_event (Ev_callback cb userdata level (psz_module ctx)
                       (map Some (take 1023 out) @ Some NUL # replicate (1023 - length out) None))
                       w1))"
proof -
  let ?p = "allocator w (heap w)"
  let ?w1 = "w\<lparr>heap := (heap w)(?p \<mapsto> \<lparr>callback = cb, data = userdata\<rparr>),
                log_handler := (log_handler w)(instance \<mapsto> (Swiftvlc_log_bridge, ?p)),
                trace := trace w @
                  [Ev_malloc ?p, Ev_libvlc_log_set instance Swiftvlc_log_bridge ?p]\<rparr>"
  have set: "swiftvlc_log_set instance cb userdata w = Inr (?p, ?w1)"
    using assms(1) by (rule swiftvlc_log_set_eq)
  have reg: "log_handler ?w1 instance = Some (Swiftvlc_log_bridge, ?p)"
    and blk: "heap ?w1 ?p = Some \<lparr>callback = cb, data = userdata\<rparr>"
    by simp_all
  have "libvlc_log F instance level ctx fmt args ?w1 =
               (if cb = NULL then Inl Null_call
                else Inr (log_event (Ev_callback cb userdata level (psz_module ctx)
                       (map Some (take 1023 out) @ Some NUL # replicate (1023 - length out) None))
                       ?w1))"
  proof (cases "cb = NULL")
    case True
    then show ?thesis
      using assms vsnprintf_fresh [of F fmt args out 1024]
      by (simp add: libvlc_log_def call_handler_def swiftvlc_log_bridge_def
          libvlc_log_get_context_def)
  next
    case False
    then show ?thesis
      using assms
        swiftvlc_log_bridge_eq [of F fmt args out ?p ?w1 "\<lparr>callback = cb, data = userdata\<rparr>" level ctx]
      by (simp add: libvlc_log_def call_handler_def)
  qed
  with set reg blk assms(1) show ?thesis
    by blast
qed

theorem log_set_stores_callback_unchecked_witness:
  "\<exists>handle w1. swiftvlc_log_set 6 NULL 4 example_world = Inr (handle, w1)
     \<and> handle \<noteq> NULL
     \<and> heap w1 handle = Some \<lparr>callback = NULL, data = 4\<rparr>
     \<and> log_handler w1 6 = Some (Swiftvlc_log_bridge, handle)
     \<and> libvlc_log join_format 6 3 \<lparr>psz_module = Some ''core'', psz_header = None, i_line = 0\<rparr>
         ''hi '' ''there'' w1 = Inl Null_call"
  using log_set_stores_callback_unchecked
    [of example_world join_format "''hi ''" "''there''" "''hi there''" 6 NULL 4 3
        "\<lparr>psz_module = Some ''core'', psz_header = None, i_line = 0\<rparr>"]
  by (simp add: example_world_def join_format_def)

text \<open>
  Claim C7. After a registration made with null user data and a callback that is not
  null, every run of log events on that instance that C gives a meaning to (each
  formatted or met with an encoding error) returns, makes exactly one callback call per
  event, and each of these calls has null as its user-data argument.
\<close>

theorem null_userdata_passthrough:
  assumes "allocator w (heap w) \<noteq> NULL" and "cb \<noteq> NULL"
    and "list_all (defined_format F) evs"
  shows "\<exists>handle w1 t. swiftvlc_log_set instance cb NULL w = Inr (handle, w1)
           \<and> libvlc_log_all F instance evs w1 = Inr (w1\<lparr>trace := trace w1 @ t\<rparr>)
           \<and> map callback_data t = replicate (length evs) (Some NULL)"
proof -
  let ?p = "allocator w (heap w)"
  let ?w1 = "w\<lparr>heap := (heap w)(?p \<mapsto> \<lparr>callback = cb, data = NULL\<rparr>),
                log_handler := (log_handler w)(instance \<mapsto> (Swiftvlc_log_bridge, ?p)),
                trace := trace w @
                  [Ev_malloc ?p, Ev_libvlc_log_set instance Swiftvlc_log_bridge ?p]\<rparr>"
  have set: "swiftvlc_log_set instance cb NULL w = Inr (?p, ?w1)"
    using assms(1) by (rule swiftvlc_log_set_eq)
  have "log_handler ?w1 instance = Some (Swiftvlc_log_bridge, ?p)"
    and "heap ?w1 ?p = Some \<lparr>callback = cb, data = NULL\<rparr>"
    and "callback \<lparr>callback = cb, data = NULL\<rparr> \<noteq> NULL"
    using assms(2) by simp_all
  from libvlc_log_all_registered [OF this(1) assms(1) this(2,3) assms(3)]
  obtain t where "libvlc_log_all F instance evs ?w1 = Inr (?w1\<lparr>trace := trace ?w1 @ t\<rparr>)"
    and "map callback_data t = replicate (length evs) (Some NULL)"
    by auto
  with set show ?thesis
    by blast
qed

theorem null_userdata_passthrough_witness:
  "swiftvlc_log_set 6 8 NULL example_world =
     Inr (2, example_world
               \<lparr>heap := [1 \<mapsto> \<lparr>callback = 7, data = 9\<rparr>, 2 \<mapsto> \<lparr>callback = 8, data = NULL\<rparr>],
                 log_handler := [5 \<mapsto> (Swiftvlc_log_bridge, 1), 6 \<mapsto> (Swiftvlc_log_bridge, 2)],
                 trace := [Ev_malloc 2, Ev_libvlc_log_set 6 Swiftvlc_log_bridge 2]\<rparr>)
   \<and> (\<exists>t. libvlc_log_all join_format 6
              [(3, \<lparr>psz_module = Some ''core'', psz_header = None, i_line = 0\<rparr>, ''hi '', ''there''),
               (4, \<lparr>psz_module = None, psz_header = None, i_line = 7\<rparr>, ''oops'', [])]
              (example_world
               \<lparr>heap := [1 \<mapsto> \<lparr>callback = 7, data = 9\<rparr>, 2 \<mapsto> \<lparr>callback = 8, data = NULL\<rparr>],
                 log_handler := [5 \<mapsto> (Swiftvlc_log_bridge, 1), 6 \<mapsto> (Swiftvlc_log_bridge, 2)],
                 trace := [Ev_malloc 2, Ev_libvlc_log_set 6 Swiftvlc_log_bridge 2]\<rparr>) =
            Inr (example_world
               \<lparr>heap := [1 \<mapsto> \<lparr>callback = 7, data = 9\<rparr>, 2 \<mapsto> \<lparr>callback = 8, data = NULL\<rparr>],
                 log_handler := [5 \<mapsto> (Swiftvlc_log_bridge, 1), 6 \<mapsto> (Swiftvlc_log_bridge, 2)],
                 trace := [Ev_malloc 2, Ev_libvlc_log_set 6 Swiftvlc_log_bridge 2] @ t\<rparr>)
          \<and> map callback_data t = [Some NULL, Some NULL])"
proof -
  let ?w1 = "example_world
               \<lparr>heap := [1 \<mapsto> \<lparr>callback = 7, data = 9\<rparr>, 2 \<mapsto> \<lparr>callback = 8, data = NULL\<rparr>],
                 log_handler := [5 \<mapsto> (Swiftvlc_log_bridge, 1), 6 \<mapsto> (Swiftvlc_log_bridge, 2)],
                 trace := [Ev_malloc 2, Ev_libvlc_log_set 6 Swiftvlc_log_bridge 2]\<rparr>"
  have set: "swiftvlc_log_set 6 8 NULL example_world = Inr (2, ?w1)"
    using swiftvlc_log_set_eq [of example_world 6 8 NULL] by (simp add: example_world_def)
  have "allocator example_world (heap example_world) \<noteq> NULL" and "(8::nat) \<noteq> NULL"
    and "list_all (defined_format join_format)
           [(3, \<lparr>psz_module = Some ''core'', psz_header = None, i_line = 0\<rparr>, ''hi '', ''there''),
            (4, \<lparr>psz_module = None, psz_header = None, i_line = 7\<rparr>, ''oops'', [])]"
    by (simp_all add: example_world_def defined_format_def join_format_def)
  from null_userdata_passthrough [OF this, of 6] set show ?thesis
    by auto
qed

text \<open>
  Claim C5. Given a null handle or the address of a live context block,
  \<open>swiftvlc_log_unset\<close> returns; it has called \<open>libvlc_log_unset\<close> first and
  \<open>free\<close> second; the registry has no handler for the instance and the block is
  released. From then on no run of log events on that instance reaches the trampoline or
  any callback: each leaves the world as it is. Log events are taken one at a time, the
  reading under which unregistration is synchronous.
\<close>

theorem log_unset_unregisters_then_frees:
  assumes "context = NULL \<or> heap w context \<noteq> None"
  shows "\<exists>w'. swiftvlc_log_unset instance context w = Inr w'
           \<and> trace w' = trace w @ [Ev_libvlc_log_unset instance, Ev_free context]
           \<and> log_handler w' = (log_handler w)(instance := None)
           \<and> heap w' = (if context = NULL then heap w else (heap w)(context := None))
           \<and> libvlc_log_all F instance evs w' = Inr w'"
proof -
  let ?w' = "w\<lparr>heap := (if context = NULL then heap w else (heap w)(context := None)),
                log_handler := (log_handler w)(instance := None),
                trace := trace w @ [Ev_libvlc_log_unset instance, Ev_free context]\<rparr>"
  have "swiftvlc_log_unset instance context w = Inr ?w'"
    using assms by (rule swiftvlc_log_unset_eq)
  moreover have "libvlc_log_all F instance evs ?w' = Inr ?w'"
    by (rule libvlc_log_all_unregistered) simp
  ultimately show ?thesis by simp
qed

theorem log_unset_unregisters_then_frees_witness:
  "\<exists>w'. swiftvlc_log_unset 5 1 example_world = Inr w'
     \<and> trace w' = trace example_world @ [Ev_libvlc_log_unset 5, Ev_free 1]
     \<and> log_handler w' = (log_handler example_world)(5 := None)
     \<and> heap w' = (heap example_world)(1 := None)
     \<and> libvlc_log_all join_format 5
         [(3, \<lparr>psz_module = Some ''core'', psz_header = None, i_line = 0\<rparr>, ''hi '', ''there'')]
         w' = Inr w'"
  using log_unset_unregisters_then_frees
    [of 1 example_world 5 join_format
        "[(3, \<lparr>psz_module = Some ''core'', psz_header = None, i_line = 0\<rparr>, ''hi '', ''there'')]"]
  by (simp add: example_world_def)

text \<open>
  Claim C10. With a null handle \<open>swiftvlc_log_unset\<close> returns for every instance and
  every world: it removes the instance's handler from the registry, calls \<open>free\<close> on
  the null pointer, which releases nothing, and leaves the heap as it is.
\<close>

theorem log_unset_null_handle:
  "swiftvlc_log_unset instance NULL w =
     Inr (w\<lparr>log_handler := (log_handler w)(instance := None),
            trace := trace w @ [Ev_libvlc_log_unset instance, Ev_free NULL]\<rparr>)"
  by (simp add: swiftvlc_log_unset_def free_def libvlc_log_unset_def log_event_def)

theorem log_unset_null_handle_witness:
  "swiftvlc_log_unset 5 NULL example_world =
     Inr (example_world
            \<lparr>log_handler := Map.empty,
              trace := [Ev_libvlc_log_unset 5, Ev_free NULL]\<rparr>)"
  using log_unset_null_handle [of 5 example_world]
  by (simp add: example_world_def)

end
